theory Spec2Isabelle
  imports Complex_Main
begin

section \<open>The OSC to MIDI translator of \<^verbatim>\<open>tangent_to_midi.py\<close>\<close>

text \<open>
  The development embeds the translation engine of the script: the helper
  \<^verbatim>\<open>scale_value\<close>, the handler \<^verbatim>\<open>osc_handler\<close> with the global
  dictionary \<^verbatim>\<open>cc_values\<close>, the table \<^verbatim>\<open>MIDI_MAPPING\<close> and the start-up
  part of \<^verbatim>\<open>main\<close>.

  Conventions of the embedding.
  \<^item> Python integers are \<open>int\<close>. Python floats are taken as exact rationals
    (\<open>rat\<close>): the rounding of float arithmetic, infinities and NaN are outside the
    model. On the inputs evaluated below (\<open>0.5\<close>, \<open>0.0\<close>, \<open>1.0\<close>, \<open>127\<close>)
    float arithmetic is exact.
  \<^item> Every exception of the source is a value of \<open>error\<close>; a computation that can
    raise returns \<open>error + 'a\<close> with \<open>Inl\<close> for the exception.
  \<^item> The global dictionary \<^verbatim>\<open>cc_values\<close> is passed in and returned.
  \<^item> \<^verbatim>\<open>print\<close> is recorded as a list of console lines, the call
    \<^verbatim>\<open>midi_out_port.send\<close> as the message handed to the port.
\<close>

subsection \<open>Values arriving from the OSC transport\<close>

text \<open>
  The arguments of an OSC message as python-osc delivers them: integers, floats,
  strings, blobs (\<^verbatim>\<open>bytes\<close>), booleans and \<^verbatim>\<open>None\<close>.
\<close>

datatype pyval =
    OInt int
  | OFloat rat
  | OStr string
  | OBlob string
  | OBool bool
  | ONil

datatype error = IndexError | KeyError | TypeError | ValueError | ZeroDivisionError

text \<open>\<^verbatim>\<open>args[0]\<close>: the first element of the argument tuple, IndexError when it is empty.\<close>

definition first_arg :: "pyval list \<Rightarrow> error + pyval" where
  "first_arg args = (case args of [] \<Rightarrow> Inl IndexError | a # _ \<Rightarrow> Inr a)"

text \<open>\<^verbatim>\<open>d[key]\<close> on a dictionary whose entry for the key is \<open>v\<close>: KeyError when absent.\<close>

definition getitem :: "'a option \<Rightarrow> error + 'a" where
  "getitem v = (case v of None \<Rightarrow> Inl KeyError | Some x \<Rightarrow> Inr x)"

text \<open>
  The number a value stands for in an ordering comparison with a number
  (\<^verbatim>\<open>args[0] > 0\<close>, and the comparisons inside \<^verbatim>\<open>min\<close> and \<^verbatim>\<open>max\<close>):
  \<^verbatim>\<open>bool\<close> is a subclass of \<^verbatim>\<open>int\<close>; strings, bytes and \<^verbatim>\<open>None\<close> raise TypeError.
\<close>

fun number :: "pyval \<Rightarrow> error + rat" where
  "number (OInt i) = Inr (of_int i)"
| "number (OFloat x) = Inr x"
| "number (OBool b) = Inr (if b then 1 else 0)"
| "number (OStr s) = Inl TypeError"
| "number (OBlob s) = Inl TypeError"
| "number ONil = Inl TypeError"

text \<open>\<^verbatim>\<open>int(x)\<close> on a float: the fractional part is dropped, towards zero.\<close>

definition int_of_float :: "rat \<Rightarrow> int" where
  "int_of_float x = (if 0 \<le> x then \<lfloor>x\<rfloor> else \<lceil>x\<rceil>)"

text \<open>
  \<^verbatim>\<open>int(x)\<close> on text, base ten: surrounding whitespace is dropped, then an optional
  sign, then decimal digits with single underscores allowed between digits. Only
  ASCII is modelled, and no limit on the number of digits. The whitespace of a
  \<^verbatim>\<open>str\<close> includes the separators \<open>0x1c\<close> to \<open>0x1f\<close>, that of \<^verbatim>\<open>bytes\<close>
  does not.
\<close>

definition bytes_space :: "char \<Rightarrow> bool" where
  "bytes_space c = (let n = (of_char c :: nat) in (9 \<le> n \<and> n \<le> 13) \<or> n = 32)"

definition str_space :: "char \<Rightarrow> bool" where
  "str_space c = (let n = (of_char c :: nat) in (9 \<le> n \<and> n \<le> 13) \<or> (28 \<le> n \<and> n \<le> 32))"

definition is_digit :: "char \<Rightarrow> bool" where
  "is_digit c = (let n = (of_char c :: nat) in 48 \<le> n \<and> n \<le> 57)"

definition digit_val :: "char \<Rightarrow> nat" where
  "digit_val c = (of_char c :: nat) - 48"

fun digits :: "string \<Rightarrow> nat \<Rightarrow> nat option" where
  "digits [] acc = Some acc"
| "digits (c # cs) acc =
     (if c = CHR ''_'' then
        (case cs of [] \<Rightarrow> None
         | d # _ \<Rightarrow> if is_digit d then digits cs acc else None)
      else if is_digit c then digits cs (10 * acc + digit_val c)
      else None)"

definition literal :: "string \<Rightarrow> nat option" where
  "literal s = (case s of [] \<Rightarrow> None | c # _ \<Rightarrow> if is_digit c then digits s 0 else None)"

definition strip :: "(char \<Rightarrow> bool) \<Rightarrow> string \<Rightarrow> string" where
  "strip sp s = rev (dropWhile sp (rev (dropWhile sp s)))"

definition int_of_text :: "(char \<Rightarrow> bool) \<Rightarrow> string \<Rightarrow> error + int" where
  "int_of_text sp s =
     (let r = (case strip sp s of
                 [] \<Rightarrow> None
               | c # cs \<Rightarrow>
                   if c = CHR ''+'' then map_option int (literal cs)
                   else if c = CHR ''-'' then map_option (\<lambda>n. - int n) (literal cs)
                   else map_option int (literal (c # cs)))
      in case r of None \<Rightarrow> Inl ValueError | Some i \<Rightarrow> Inr i)"

fun py_int :: "pyval \<Rightarrow> error + int" where
  "py_int (OInt i) = Inr i"
| "py_int (OFloat x) = Inr (int_of_float x)"
| "py_int (OBool b) = Inr (if b then 1 else 0)"
| "py_int (OStr s) = int_of_text str_space s"
| "py_int (OBlob s) = int_of_text bytes_space s"
| "py_int ONil = Inl TypeError"

subsection \<open>MIDI messages\<close>

text \<open>
  The two kinds of message the script builds with \<^verbatim>\<open>mido.Message\<close>:
  \<^verbatim>\<open>note_on\<close> with channel, note and velocity, \<^verbatim>\<open>control_change\<close> with
  channel, control and value.
\<close>

datatype message =
    note_on int int int
  | control_change int int int

text \<open>
  The constructor of the mido library checks its keyword arguments: the channel
  lies in 0..15 and every data byte in 0..127, else it raises ValueError. The
  arguments the script passes are integers wherever the table holds integers.
\<close>

definition check_channel :: "int \<Rightarrow> bool" where
  "check_channel c = (0 \<le> c \<and> c \<le> 15)"

definition check_data_byte :: "int \<Rightarrow> bool" where
  "check_data_byte v = (0 \<le> v \<and> v \<le> 127)"

definition Message_note_on :: "int \<Rightarrow> int \<Rightarrow> int \<Rightarrow> error + message" where
  "Message_note_on c n v =
     (if check_channel c \<and> check_data_byte n \<and> check_data_byte v
      then Inr (note_on c n v) else Inl ValueError)"

definition Message_control_change :: "int \<Rightarrow> int \<Rightarrow> int \<Rightarrow> error + message" where
  "Message_control_change c k v =
     (if check_channel c \<and> check_data_byte k \<and> check_data_byte v
      then Inr (control_change c k v) else Inl ValueError)"

subsection \<open>The mapping table\<close>

text \<open>
  An entry of \<^verbatim>\<open>MIDI_MAPPING\<close> is a dictionary; each key the handler reads is an
  optional field, absent when the dictionary has no such key.
\<close>

record value_map =
  in_min :: "rat option"
  in_max :: "rat option"
  out_min :: "rat option"
  out_max :: "rat option"

record mapping =
  mtype :: "string option"
  channel :: "int option"
  note_num :: "int option"
  control :: "int option"
  vmap :: "value_map option"

type_synonym mapping_table = "string \<rightharpoonup> mapping"

definition MIDI_MAPPING :: mapping_table where
  "MIDI_MAPPING = map_of
     [(''/tangent/bt/A/press'',
        \<lparr>mtype = Some ''note_on_off'', channel = Some 0, note_num = Some 60,
         control = None, vmap = None\<rparr>),
      (''/tangent/kn/A/delta'',
        \<lparr>mtype = Some ''cc_relative'', channel = Some 0, note_num = None,
         control = Some 20, vmap = None\<rparr>),
      (''/tangent/wh/A/delta'',
        \<lparr>mtype = Some ''cc_relative'', channel = Some 0, note_num = None,
         control = Some 21, vmap = None\<rparr>),
      (''/tangent/sl/A/value'',
        \<lparr>mtype = Some ''cc_absolute'', channel = Some 0, note_num = None,
         control = Some 22,
         vmap = Some \<lparr>in_min = Some 0, in_max = Some 1,
                      out_min = Some 0, out_max = Some 127\<rparr>\<rparr>)]"

subsection \<open>\<^verbatim>\<open>scale_value\<close>\<close>

text \<open>
  The value is clamped to the input range first (a comparison with a string or
  \<^verbatim>\<open>None\<close> raises there), then divided by the input span (a zero span raises
  ZeroDivisionError), mapped on the output range and converted with \<^verbatim>\<open>int\<close>.
\<close>

definition scale_value :: "pyval \<Rightarrow> rat \<Rightarrow> rat \<Rightarrow> rat \<Rightarrow> rat \<Rightarrow> error + int" where
  "scale_value val imin imax omin omax =
     (case number val of
        Inl e \<Rightarrow> Inl e
      | Inr v \<Rightarrow>
          let v' = max imin (min imax v);
              in_span = imax - imin;
              out_span = omax - omin
          in if in_span = 0 then Inl ZeroDivisionError
             else let scaled = (v' - imin) / in_span
                  in Inr (int_of_float (omin + scaled * out_span)))"

subsection \<open>\<^verbatim>\<open>osc_handler\<close>\<close>

type_synonym cc_store = "int \<rightharpoonup> int"

datatype log_line =
    Received string "pyval list"
  | Sending message
  | Error_processing string error

text \<open>
  The three branches of the \<^verbatim>\<open>try\<close> block, each up to the construction of its
  message, in the order in which the source evaluates: the argument first, then
  the keys of the rule, then the message. The branch for \<^verbatim>\<open>cc_relative\<close> and the
  block as a whole return the dictionary \<^verbatim>\<open>cc_values\<close> as they leave it, also
  when they raise: an assignment made before the exception stays.
\<close>

definition branch_note_on_off :: "mapping \<Rightarrow> pyval list \<Rightarrow> error + message" where
  "branch_note_on_off m args =
     (case first_arg args of Inl e \<Rightarrow> Inl e | Inr a \<Rightarrow>
      case number a of Inl e \<Rightarrow> Inl e | Inr x \<Rightarrow>
      let velocity = (if x > 0 then 127 else 0) in
      case getitem (channel m) of Inl e \<Rightarrow> Inl e | Inr c \<Rightarrow>
      case getitem (note_num m) of Inl e \<Rightarrow> Inl e | Inr n \<Rightarrow>
      Message_note_on c n velocity)"

definition branch_cc_absolute :: "mapping \<Rightarrow> pyval list \<Rightarrow> error + message" where
  "branch_cc_absolute m args =
     (case first_arg args of Inl e \<Rightarrow> Inl e | Inr osc_val \<Rightarrow>
      case getitem (vmap m) of Inl e \<Rightarrow> Inl e | Inr v_map \<Rightarrow>
      case getitem (in_min v_map) of Inl e \<Rightarrow> Inl e | Inr imin \<Rightarrow>
      case getitem (in_max v_map) of Inl e \<Rightarrow> Inl e | Inr imax \<Rightarrow>
      case getitem (out_min v_map) of Inl e \<Rightarrow> Inl e | Inr omin \<Rightarrow>
      case getitem (out_max v_map) of Inl e \<Rightarrow> Inl e | Inr omax \<Rightarrow>
      case scale_value osc_val imin imax omin omax of Inl e \<Rightarrow> Inl e | Inr midi_val \<Rightarrow>
      case getitem (channel m) of Inl e \<Rightarrow> Inl e | Inr c \<Rightarrow>
      case getitem (control m) of Inl e \<Rightarrow> Inl e | Inr k \<Rightarrow>
      Message_control_change c k midi_val)"

definition branch_cc_relative ::
  "mapping \<Rightarrow> pyval list \<Rightarrow> cc_store \<Rightarrow> (error + message) \<times> cc_store" where
  "branch_cc_relative m args cc =
     (case first_arg args of Inl e \<Rightarrow> (Inl e, cc) | Inr a \<Rightarrow>
      case py_int a of Inl e \<Rightarrow> (Inl e, cc) | Inr delta \<Rightarrow>
      case getitem (control m) of Inl e \<Rightarrow> (Inl e, cc) | Inr k \<Rightarrow>
      let cc1 = (if k \<in> dom cc then cc else cc(k \<mapsto> 64));
          cur = (case cc1 k of None \<Rightarrow> 64 | Some v \<Rightarrow> v);
          new = max 0 (min 127 (cur + delta));
          cc2 = cc1(k \<mapsto> new);
          msg = (case getitem (channel m) of Inl e \<Rightarrow> Inl e
                 | Inr c \<Rightarrow> Message_control_change c k new)
      in (msg, cc2))"

definition try_body ::
  "mapping \<Rightarrow> pyval list \<Rightarrow> cc_store \<Rightarrow> (error + message option) \<times> cc_store" where
  "try_body m args cc =
     (case getitem (mtype m) of
        Inl e \<Rightarrow> (Inl e, cc)
      | Inr t \<Rightarrow>
          if t = ''note_on_off'' then (map_sum id Some (branch_note_on_off m args), cc)
          else if t = ''cc_absolute'' then (map_sum id Some (branch_cc_absolute m args), cc)
          else if t = ''cc_relative'' then
            (case branch_cc_relative m args cc of (r, cc') \<Rightarrow> (map_sum id Some r, cc'))
          else (Inr None, cc))"

text \<open>
  What one call of the handler leaves behind: the dictionary, the message handed
  to the MIDI port if any, and the console lines in order. Every exception of the
  block is caught by \<^verbatim>\<open>except Exception\<close> and ends as an error line, so the
  handler has no exceptional result. A mido message is never false in
  \<^verbatim>\<open>if msg\<close> (its length is positive), and \<^verbatim>\<open>midi_out_port.send\<close> is taken to
  succeed: its failures belong to the MIDI transport.
\<close>

record outcome =
  cc_values :: cc_store
  midi_out :: "message option"
  console :: "log_line list"

definition osc_handler ::
  "mapping_table \<Rightarrow> cc_store \<Rightarrow> string \<Rightarrow> pyval list \<Rightarrow> outcome" where
  "osc_handler table cc address args =
     (case table address of
        None \<Rightarrow> \<lparr>cc_values = cc, midi_out = None, console = [Received address args]\<rparr>
      | Some m \<Rightarrow>
          (case try_body m args cc of
             (Inl e, cc') \<Rightarrow>
               \<lparr>cc_values = cc', midi_out = None,
                console = [Received address args, Error_processing address e]\<rparr>
           | (Inr None, cc') \<Rightarrow>
               \<lparr>cc_values = cc', midi_out = None, console = [Received address args]\<rparr>
           | (Inr (Some msg), cc') \<Rightarrow>
               \<lparr>cc_values = cc', midi_out = Some msg,
                console = [Received address args, Sending msg]\<rparr>))"


subsection \<open>Start-up in \<^verbatim>\<open>main\<close>\<close>



subsection \<open>Reference definitions\<close>





section \<open>Auxiliary facts\<close>





































section \<open>Properties of the dispatch\<close>

subsection \<open>Addresses outside the table\<close>

text \<open>
  Claim C8. An event whose address is not a key of the mapping table produces no
  MIDI message, whatever its arguments; the handler only prints the line for the
  received message, no error line, and leaves \<^verbatim>\<open>cc_values\<close> as it was.
\<close>

theorem unmapped_address_ignored:
  "table address = None \<Longrightarrow>
   osc_handler table cc address args =
     \<lparr>cc_values = cc, midi_out = None, console = [Received address args]\<rparr>"
  by (simp add: osc_handler_def)

theorem unmapped_address_ignored_witness:
  "MIDI_MAPPING ''/tangent/bt/B/press'' = None \<and>
   osc_handler MIDI_MAPPING Map.empty ''/tangent/bt/B/press'' [OInt 1] =
     \<lparr>cc_values = Map.empty, midi_out = None,
      console = [Received ''/tangent/bt/B/press'' [OInt 1]]\<rparr>"
proof -
  have absent: "MIDI_MAPPING ''/tangent/bt/B/press'' = None"
    by (simp add: MIDI_MAPPING_def)
  from absent
    unmapped_address_ignored [of MIDI_MAPPING "''/tangent/bt/B/press''" Map.empty "[OInt 1]"]
  show ?thesis by simp
qed

subsection \<open>Rules of an unknown type\<close>

text \<open>
  Claim C10. When the address is mapped and the rule's \<^verbatim>\<open>"type"\<close> is none of
  \<^verbatim>\<open>note_on_off\<close>, \<^verbatim>\<open>cc_absolute\<close> and \<^verbatim>\<open>cc_relative\<close>, the \<^verbatim>\<open>try\<close> block
  ends without raising and without a message: nothing is sent, no error line is
  printed and \<^verbatim>\<open>cc_values\<close> is unchanged.
\<close>

theorem unknown_type_falls_through:
  "table address = Some m \<Longrightarrow> mtype m = Some t \<Longrightarrow>
   t \<noteq> ''note_on_off'' \<Longrightarrow> t \<noteq> ''cc_absolute'' \<Longrightarrow> t \<noteq> ''cc_relative'' \<Longrightarrow>
   try_body m args cc = (Inr None, cc) \<and>
   osc_handler table cc address args =
     \<lparr>cc_values = cc, midi_out = None, console = [Received address args]\<rparr>"
  by (simp add: osc_handler_def try_body_def getitem_def)

theorem unknown_type_falls_through_witness:
  "osc_handler
     (MIDI_MAPPING(''/tangent/bt/B/press'' \<mapsto>
        \<lparr>mtype = Some ''pitch_bend'', channel = Some 0, note_num = None,
         control = Some 23, vmap = None\<rparr>))
     [20 \<mapsto> 70] ''/tangent/bt/B/press'' [OInt 1] =
   \<lparr>cc_values = [20 \<mapsto> 70], midi_out = None,
    console = [Received ''/tangent/bt/B/press'' [OInt 1]]\<rparr>"
  using unknown_type_falls_through
    [of "MIDI_MAPPING(''/tangent/bt/B/press'' \<mapsto>
           \<lparr>mtype = Some ''pitch_bend'', channel = Some 0, note_num = None,
            control = Some 23, vmap = None\<rparr>)"
        "''/tangent/bt/B/press''"
        "\<lparr>mtype = Some ''pitch_bend'', channel = Some 0, note_num = None,
          control = Some 23, vmap = None\<rparr>"
        "''pitch_bend''" "[OInt 1]" "[20 \<mapsto> 70]"]
  by simp

subsection \<open>Buttons\<close>

text \<open>
  Claim C7. Under a \<^verbatim>\<open>note_on_off\<close> rule (channel in 0..15, note in 0..127) an
  event whose first argument is a number always sends a \<^verbatim>\<open>note_on\<close> message on
  the rule's channel and note, with velocity 127 when the argument is greater
  than zero and 0 otherwise; further arguments are not read. With channel 0 and
  note 60, the argument 1 gives \<open>note_on 0 60 127\<close> and the argument 0 gives
  \<open>note_on 0 60 0\<close>.
\<close>

theorem note_on_off_velocity:
  "table address = Some m \<Longrightarrow> mtype m = Some ''note_on_off'' \<Longrightarrow>
   channel m = Some c \<Longrightarrow> note_num m = Some n \<Longrightarrow>
   check_channel c \<Longrightarrow> check_data_byte n \<Longrightarrow> number a = Inr x \<Longrightarrow>
   osc_handler table cc address (a # rest) =
     \<lparr>cc_values = cc,
      midi_out = Some (note_on c n (if x > 0 then 127 else 0)),
      console = [Received address (a # rest),
                 Sending (note_on c n (if x > 0 then 127 else 0))]\<rparr>"
  by (simp add: osc_handler_def try_body_def getitem_def branch_note_on_off_def
      first_arg_def Message_note_on_def check_data_byte_def)

theorem note_on_off_velocity_witness:
  "midi_out (osc_handler MIDI_MAPPING Map.empty ''/tangent/bt/A/press'' [OInt 1]) =
     Some (note_on 0 60 127) \<and>
   midi_out (osc_handler MIDI_MAPPING Map.empty ''/tangent/bt/A/press'' [OInt 0]) =
     Some (note_on 0 60 0) \<and>
   midi_out (osc_handler MIDI_MAPPING Map.empty ''/tangent/bt/A/press'' [OFloat (1 / 2), OStr ''x'']) =
     Some (note_on 0 60 127)"
proof -
  let ?m = "\<lparr>mtype = Some ''note_on_off'', channel = Some 0, note_num = Some 60,
             control = None, vmap = None\<rparr>"
  have rule: "MIDI_MAPPING ''/tangent/bt/A/press'' = Some ?m"
    by (simp add: MIDI_MAPPING_def)
  have ok: "check_channel 0" "check_data_byte 60"
    by (simp_all add: check_channel_def check_data_byte_def)
  from rule ok
    note_on_off_velocity
      [of MIDI_MAPPING "''/tangent/bt/A/press''" ?m 0 60 "OInt 1" 1 Map.empty "[]"]
    note_on_off_velocity
      [of MIDI_MAPPING "''/tangent/bt/A/press''" ?m 0 60 "OInt 0" 0 Map.empty "[]"]
    note_on_off_velocity
      [of MIDI_MAPPING "''/tangent/bt/A/press''" ?m 0 60 "OFloat (1 / 2)" "1 / 2"
          Map.empty "[OStr ''x'']"]
  show ?thesis by simp
qed

subsection \<open>Scaling\<close>

text \<open>
  Claim C9. \<^verbatim>\<open>scale_value\<close> clamps its input to the input range: a value below
  \<open>in_min\<close> gives what \<open>in_min\<close> gives, a value above \<open>in_max\<close> gives what
  \<open>in_max\<close> gives (the same result, or the same exception when the input span
  is zero).
\<close>

theorem scale_value_clamps:
  "number a = Inr v \<Longrightarrow>
   (v < imin \<longrightarrow>
      scale_value a imin imax omin omax = scale_value (OFloat imin) imin imax omin omax) \<and>
   (imax < v \<longrightarrow>
      scale_value a imin imax omin omax = scale_value (OFloat imax) imin imax omin omax)"
  by (auto simp add: scale_value_def Let_def max_def min_def)

theorem scale_value_clamps_witness:
  "scale_value (OInt (- 5)) 0 1 0 127 = scale_value (OFloat 0) 0 1 0 127 \<and>
   scale_value (OFloat (3 / 2)) 0 1 0 127 = scale_value (OFloat 1) 0 1 0 127"
  using scale_value_clamps [of "OInt (- 5)" "- 5" 0 1 0 127]
    scale_value_clamps [of "OFloat (3 / 2)" "3 / 2" 0 1 0 127]
  by simp




subsection \<open>Faders\<close>



subsection \<open>Knobs and wheels\<close>



subsection \<open>The key of the accumulated state\<close>




subsection \<open>Malformed events\<close>




subsection \<open>Entries the specification calls invalid\<close>




end
